theory Spec2Isabelle
  imports Main
begin

section \<open>The library server: data model\<close>

text \<open>
  The theory embeds \<^verbatim>\<open>back/server.js\<close>: the three Sequelize models (Book, Reader,
  BookIssue), the validators declared on their attributes, and the four handlers that
  write to the database (POST /books, POST /readers, POST /issue, POST /return).

  The database is modelled as three tables, each the list of its rows in insertion
  order, with the counter of each auto-increment primary key. A table has the columns
  of its model: the key and the attributes given to \<^verbatim>\<open>sequelize.define\<close>. The file
  declares no association between the models, so a BookIssue has the attributes
  \<^verbatim>\<open>issueDate\<close>, \<^verbatim>\<open>returnDate\<close> and \<^verbatim>\<open>status\<close> only: no \<^verbatim>\<open>BookId\<close> and no
  \<^verbatim>\<open>ReaderId\<close>. The time stamps that Sequelize adds to every row are left out.

  A request body holds the attributes of its model; ids are natural numbers, a year is
  an integer, and a status is one of the values of its enumeration.
\<close>

datatype book_status = Available | Issued | Repair
  \<comment> \<open>\<^verbatim>\<open>DataTypes.ENUM('available', 'issued', 'repair')\<close>\<close>

datatype issue_status = IssueIssued | IssueReturned | IssueOverdue
  \<comment> \<open>\<^verbatim>\<open>DataTypes.ENUM('issued', 'returned', 'overdue')\<close>\<close>

text \<open>What \<^verbatim>\<open>new Date()\<close> reads from the clock, to the precision of a DATEONLY column.\<close>

record jsdate =
  getFullYear :: int
  getMonth :: nat
  getDate :: nat

record Book =
  book_id :: nat
  title :: string
  author :: string
  year :: "int option"
  status :: book_status

record Reader =
  reader_id :: nat
  name :: string
  email :: string
  phone :: "string option"

record BookIssue =
  issue_id :: nat
  issueDate :: jsdate
  returnDate :: "jsdate option"
  issue_status :: issue_status

text \<open>
  The process: \<open>yearMax\<close> is the bound of the \<^verbatim>\<open>max\<close> validator of \<^verbatim>\<open>Book.year\<close>,
  which \<^verbatim>\<open>sequelize.define\<close> receives as the value of
  \<^verbatim>\<open>new Date().getFullYear()\<close> when the module is loaded; the rest is the database.
\<close>

record server =
  yearMax :: int
  books :: "Book list"
  readers :: "Reader list"
  bookIssues :: "BookIssue list"
  nextBookId :: nat
  nextReaderId :: nat
  nextIssueId :: nat

definition startServer :: "jsdate \<Rightarrow> server" where
  "startServer loaded =
     \<lparr>yearMax = getFullYear loaded, books = [], readers = [], bookIssues = [],
      nextBookId = 1, nextReaderId = 1, nextIssueId = 1\<rparr>"

subsection \<open>Responses\<close>

text \<open>
  An error thrown inside a handler's \<^verbatim>\<open>try\<close> block: Sequelize's validation error with
  the failed (attribute, validator) pairs, its unique-constraint error, its database
  error for a query that names a column the table does not have, or the TypeError of
  calling a method on \<^verbatim>\<open>null\<close>.
\<close>

datatype thrown =
    ValidationError "(string \<times> string) list"
  | UniqueConstraintError string
  | DatabaseError string
  | TypeError

text \<open>
  The body of an error response: the two fixed messages of the handlers
  (\<open>BookUnavailable\<close>: "the book is not available for issue"; \<open>NoActiveIssue\<close>: "no
  active issue found"), or the message of a caught error.
\<close>

datatype error_body = BookUnavailable | NoActiveIssue | Thrown thrown

datatype 'a response = Success nat 'a | Failure nat error_body

fun is_failure :: "'a response \<Rightarrow> bool" where
  "is_failure (Failure c e) = True"
| "is_failure (Success c x) = False"

section \<open>Validators\<close>

text \<open>
  The class \<^verbatim>\<open>\s\<close> of a JavaScript regular expression, on the code units a \<open>char\<close>
  holds: tab, line feed, vertical tab, form feed, carriage return, space and the
  no-break space.
\<close>

definition is_space :: "char \<Rightarrow> bool" where
  "is_space c = (of_char c \<in> {9, 10, 11, 12, 13, 32, 160 :: nat})"

definition is_digit :: "char \<Rightarrow> bool" where
  "is_digit c = (48 \<le> (of_char c :: nat) \<and> (of_char c :: nat) \<le> 57)"

text \<open>
  \<^verbatim>\<open>notEmpty: true\<close> is Sequelize's validator
  \<^verbatim>\<open>!str.match(/^[\s\t\r\n]*$/)\<close>: the string is not made of white space only.
\<close>

definition notEmpty :: "string \<Rightarrow> bool" where
  "notEmpty str = (\<not> list_all is_space str)"

text \<open>The rule in the specification's words: the trimmed string has length at least 1.\<close>

definition trim :: "string \<Rightarrow> string" where
  "trim str = rev (dropWhile is_space (rev (dropWhile is_space str)))"

definition spec_nonempty_text :: "string \<Rightarrow> bool" where
  "spec_nonempty_text str = (1 \<le> length (trim str))"

text \<open>\<^verbatim>\<open>is: /^\+?[\d\s\-\(\)]{7,}$/i\<close> on \<^verbatim>\<open>Reader.phone\<close>.\<close>

definition phone_char :: "char \<Rightarrow> bool" where
  "phone_char c = (is_digit c \<or> is_space c \<or> c = CHR ''-'' \<or> c = CHR ''('' \<or> c = CHR '')'')"

definition phone_is :: "string \<Rightarrow> bool" where
  "phone_is str =
     (let rest = (case str of c # cs \<Rightarrow> if c = CHR ''+'' then cs else str | [] \<Rightarrow> str)
      in 7 \<le> length rest \<and> list_all phone_char rest)"

section \<open>Creating books and readers\<close>

record BookInput =
  in_title :: "string option"
  in_author :: "string option"
  in_year :: "int option"
  in_status :: "book_status option"

record ReaderInput =
  in_name :: "string option"
  in_email :: "string option"
  in_phone :: "string option"

text \<open>
  The validators of one text attribute with \<^verbatim>\<open>allowNull: false\<close> and
  \<^verbatim>\<open>notEmpty: true\<close>. A null value fails \<^verbatim>\<open>allowNull\<close> and skips the validators.
\<close>

definition validate_text :: "string \<Rightarrow> string option \<Rightarrow> (string \<times> string) list" where
  "validate_text attr v =
     (case v of
        None \<Rightarrow> [(attr, ''notNull'')]
      | Some str \<Rightarrow> if notEmpty str then [] else [(attr, ''notEmpty'')])"

text \<open>
  \<^verbatim>\<open>year\<close> may be null; a value is an integer (\<^verbatim>\<open>isInt\<close> holds of every \<open>int\<close>) and
  is checked against \<^verbatim>\<open>min: 0\<close> and against the \<^verbatim>\<open>max\<close> fixed when the model was
  defined.
\<close>

definition validate_year :: "int \<Rightarrow> int option \<Rightarrow> (string \<times> string) list" where
  "validate_year bound v =
     (case v of
        None \<Rightarrow> []
      | Some y \<Rightarrow>
          (if 0 \<le> y then [] else [(''year'', ''min'')])
          @ (if y \<le> bound then [] else [(''year'', ''max'')]))"

definition validateBook :: "int \<Rightarrow> BookInput \<Rightarrow> (string \<times> string) list" where
  "validateBook bound body =
     validate_text ''title'' (in_title body)
     @ validate_text ''author'' (in_author body)
     @ validate_year bound (in_year body)"

text \<open>
  POST /books: \<^verbatim>\<open>Book.create(req.body)\<close>, 201 with the book, or 400 with the message
  of the error. \<^verbatim>\<open>status\<close> is taken from the body, \<^verbatim>\<open>'available'\<close> by default.
\<close>

definition createBook :: "BookInput \<Rightarrow> server \<Rightarrow> Book response \<times> server" where
  "createBook body s =
     (let errors = validateBook (yearMax s) body in
      case (in_title body, in_author body, errors) of
        (Some t, Some a, []) \<Rightarrow>
          (let book = \<lparr>book_id = nextBookId s, title = t, author = a, year = in_year body,
                       status = (case in_status body of None \<Rightarrow> Available | Some st \<Rightarrow> st)\<rparr>
           in (Success 201 book,
               s\<lparr>books := books s @ [book], nextBookId := Suc (nextBookId s)\<rparr>))
      | _ \<Rightarrow> (Failure 400 (Thrown (ValidationError errors)), s))"

text \<open>
  The validators of a Reader. \<^verbatim>\<open>isEmail\<close> is the validator of the validator.js library;
  it is a parameter here.
\<close>

definition validateReader :: "(string \<Rightarrow> bool) \<Rightarrow> ReaderInput \<Rightarrow> (string \<times> string) list" where
  "validateReader isEmail body =
     validate_text ''name'' (in_name body)
     @ (case in_email body of
          None \<Rightarrow> [(''email'', ''notNull'')]
        | Some e \<Rightarrow> if isEmail e then [] else [(''email'', ''isEmail'')])
     @ (case in_phone body of
          None \<Rightarrow> []
        | Some p \<Rightarrow> if phone_is p then [] else [(''phone'', ''is'')])"

text \<open>
  POST /readers: \<^verbatim>\<open>Reader.create(req.body)\<close>. The insert fails on an email that a
  row already has (\<^verbatim>\<open>unique: true\<close>).
\<close>

definition createReader ::
  "(string \<Rightarrow> bool) \<Rightarrow> ReaderInput \<Rightarrow> server \<Rightarrow> Reader response \<times> server" where
  "createReader isEmail body s =
     (let errors = validateReader isEmail body in
      case (in_name body, in_email body, errors) of
        (Some n, Some e, []) \<Rightarrow>
          if e \<in> set (map email (readers s))
          then (Failure 400 (Thrown (UniqueConstraintError ''email'')), s)
          else
            (let reader = \<lparr>reader_id = nextReaderId s, name = n, email = e,
                           phone = in_phone body\<rparr>
             in (Success 201 reader,
                 s\<lparr>readers := readers s @ [reader], nextReaderId := Suc (nextReaderId s)\<rparr>))
      | _ \<Rightarrow> (Failure 400 (Thrown (ValidationError errors)), s))"

section \<open>Issuing and returning\<close>

definition findByPk :: "nat \<Rightarrow> Book list \<Rightarrow> Book option" where
  "findByPk k rows = find (\<lambda>b. book_id b = k) rows"

subsection \<open>The model of an issue\<close>

text \<open>A value in the object given to \<^verbatim>\<open>create\<close> or in a \<^verbatim>\<open>where\<close> clause.\<close>

datatype val = IntV nat | StatusV issue_status | DateV jsdate | NullV

definition BookIssue_attributes :: "string list" where
  "BookIssue_attributes = [''id'', ''issueDate'', ''returnDate'', ''status'']"

text \<open>The value of an attribute of a row; no value for a name that is not an attribute.\<close>

definition getDataValue :: "string \<Rightarrow> BookIssue \<Rightarrow> val option" where
  "getDataValue attr i =
     (if attr = ''id'' then Some (IntV (issue_id i))
      else if attr = ''issueDate'' then Some (DateV (issueDate i))
      else if attr = ''returnDate''
        then Some (case returnDate i of None \<Rightarrow> NullV | Some d \<Rightarrow> DateV d)
      else if attr = ''status'' then Some (StatusV (issue_status i))
      else None)"

text \<open>
  \<^verbatim>\<open>BookIssue.build\<close>: each attribute takes its value from the object, or its default
  (\<^verbatim>\<open>Sequelize.NOW\<close> for \<^verbatim>\<open>issueDate\<close>, \<^verbatim>\<open>'issued'\<close> for \<^verbatim>\<open>status\<close>). A key of
  the object that is not an attribute is read by nothing: it is dropped.
\<close>

definition build :: "nat \<Rightarrow> jsdate \<Rightarrow> (string \<times> val) list \<Rightarrow> BookIssue" where
  "build key now values =
     \<lparr>issue_id = key,
      issueDate = (case map_of values ''issueDate'' of Some (DateV d) \<Rightarrow> d | _ \<Rightarrow> now),
      returnDate = (case map_of values ''returnDate'' of Some (DateV d) \<Rightarrow> Some d | _ \<Rightarrow> None),
      issue_status =
        (case map_of values ''status'' of Some (StatusV st) \<Rightarrow> st | _ \<Rightarrow> IssueIssued)\<rparr>"

definition insertIssue :: "BookIssue \<Rightarrow> server \<Rightarrow> server" where
  "insertIssue issue s =
     s\<lparr>bookIssues := bookIssues s @ [issue], nextIssueId := Suc (nextIssueId s)\<rparr>"

text \<open>\<^verbatim>\<open>BookIssue.create\<close>: the row built takes the next key and is appended.\<close>

definition BookIssue_create ::
  "jsdate \<Rightarrow> (string \<times> val) list \<Rightarrow> server \<Rightarrow> BookIssue \<times> server" where
  "BookIssue_create now values s =
     (let issue = build (nextIssueId s) now values in (issue, insertIssue issue s))"

text \<open>
  \<^verbatim>\<open>BookIssue.findOne({ where })\<close>: the query fails when the clause names a column
  that the table does not have; otherwise it gives the first row that has every value
  of the clause.
\<close>

definition findOne :: "(string \<times> val) list \<Rightarrow> BookIssue list \<Rightarrow> thrown + BookIssue option" where
  "findOne cond rows =
     (case filter (\<lambda>attr. attr \<notin> set BookIssue_attributes) (map fst cond) of
        attr # _ \<Rightarrow> Inl (DatabaseError attr)
      | [] \<Rightarrow>
          Inr (find (\<lambda>row. list_all (\<lambda>(attr, v). getDataValue attr row = Some v) cond) rows))"

subsection \<open>The writes of the two handlers\<close>

text \<open>\<^verbatim>\<open>book.update({ status })\<close>: an UPDATE of the rows with the book's key.\<close>

definition setStatusWhere :: "nat \<Rightarrow> book_status \<Rightarrow> Book \<Rightarrow> Book" where
  "setStatusWhere k st b = (if book_id b = k then b\<lparr>status := st\<rparr> else b)"

definition updateBookStatus :: "nat \<Rightarrow> book_status \<Rightarrow> server \<Rightarrow> server" where
  "updateBookStatus k st s = s\<lparr>books := map (setStatusWhere k st) (books s)\<rparr>"

text \<open>
  \<^verbatim>\<open>issue.update({ returnDate: new Date(), status: 'returned' })\<close>: an UPDATE of the
  rows with the issue's key.
\<close>

definition closeIssue :: "jsdate \<Rightarrow> BookIssue \<Rightarrow> BookIssue" where
  "closeIssue now i = i\<lparr>returnDate := Some now, issue_status := IssueReturned\<rparr>"

definition closeWhere :: "nat \<Rightarrow> jsdate \<Rightarrow> BookIssue \<Rightarrow> BookIssue" where
  "closeWhere k now i = (if issue_id i = k then closeIssue now i else i)"

definition updateIssue :: "nat \<Rightarrow> jsdate \<Rightarrow> server \<Rightarrow> server" where
  "updateIssue k now s = s\<lparr>bookIssues := map (closeWhere k now) (bookIssues s)\<rparr>"

subsection \<open>POST /issue\<close>

text \<open>The object that the handler gives to \<^verbatim>\<open>BookIssue.create\<close>.\<close>

definition issueValues :: "nat \<Rightarrow> nat \<Rightarrow> (string \<times> val) list" where
  "issueValues bookId readerId =
     [(''BookId'', IntV bookId), (''ReaderId'', IntV readerId), (''status'', StatusV IssueIssued)]"

text \<open>
  One guard answers 400 with the same message for a book that is missing and for a
  book that is not available; the reader is not looked up. Then the issue is created
  and the book is updated.
\<close>

definition issueBook :: "jsdate \<Rightarrow> nat \<Rightarrow> nat \<Rightarrow> server \<Rightarrow> BookIssue response \<times> server" where
  "issueBook now bookId readerId s =
     (case findByPk bookId (books s) of
        None \<Rightarrow> (Failure 400 BookUnavailable, s)
      | Some book \<Rightarrow>
          if status book \<noteq> Available then (Failure 400 BookUnavailable, s)
          else
            (case BookIssue_create now (issueValues bookId readerId) s of
               (issue, s1) \<Rightarrow>
                 (Success 201 issue, updateBookStatus (book_id book) Issued s1)))"

subsection \<open>POST /return\<close>

text \<open>
  The handler after its guard, with the issue that the query gave: the issue is
  updated, then the book is looked up and updated. When the lookup gives \<^verbatim>\<open>null\<close>,
  the call \<^verbatim>\<open>book.update\<close> throws, and the \<^verbatim>\<open>catch\<close> answers 400.
\<close>

definition returnFound ::
  "jsdate \<Rightarrow> nat \<Rightarrow> BookIssue \<Rightarrow> server \<Rightarrow> BookIssue response \<times> server" where
  "returnFound now bookId issue s =
     (let s1 = updateIssue (issue_id issue) now s in
      case findByPk bookId (books s1) of
        None \<Rightarrow> (Failure 400 (Thrown TypeError), s1)
      | Some book \<Rightarrow>
          (Success 200 (closeIssue now issue), updateBookStatus (book_id book) Available s1))"

text \<open>
  The handler: the query for an issue with the \<^verbatim>\<open>BookId\<close> of the request and the
  status \<^verbatim>\<open>'issued'\<close>, inside the \<^verbatim>\<open>try\<close> block; 404 when it gives \<^verbatim>\<open>null\<close>.
\<close>

definition returnBook :: "jsdate \<Rightarrow> nat \<Rightarrow> server \<Rightarrow> BookIssue response \<times> server" where
  "returnBook now bookId s =
     (case findOne [(''BookId'', IntV bookId), (''status'', StatusV IssueIssued)] (bookIssues s) of
        Inl error \<Rightarrow> (Failure 400 (Thrown error), s)
      | Inr None \<Rightarrow> (Failure 404 NoActiveIssue, s)
      | Inr (Some issue) \<Rightarrow> returnFound now bookId issue s)"

section \<open>Runs of the server\<close>

datatype call =
    PostBooks BookInput
  | PostReaders ReaderInput
  | PostIssue nat nat
  | PostReturn nat

text \<open>One request, received at the date \<open>now\<close>; only the new state is kept.\<close>

fun handle :: "(string \<Rightarrow> bool) \<Rightarrow> server \<Rightarrow> jsdate \<times> call \<Rightarrow> server" where
  "handle isEmail s (now, PostBooks body) = snd (createBook body s)"
| "handle isEmail s (now, PostReaders body) = snd (createReader isEmail body s)"
| "handle isEmail s (now, PostIssue bookId readerId) = snd (issueBook now bookId readerId s)"
| "handle isEmail s (now, PostReturn bookId) = snd (returnBook now bookId s)"

definition exec :: "(string \<Rightarrow> bool) \<Rightarrow> (jsdate \<times> call) list \<Rightarrow> server \<Rightarrow> server" where
  "exec isEmail calls s = foldl (handle isEmail) s calls"


section \<open>Properties of a store\<close>

text \<open>An issue references a book when its \<^verbatim>\<open>BookId\<close> is the key of the book.\<close>

definition references :: "nat \<Rightarrow> BookIssue \<Rightarrow> bool" where
  "references bookId i = (getDataValue ''BookId'' i = Some (IntV bookId))"

text \<open>The open issues of a book: those that reference it and have status \<open>issued\<close>.\<close>

definition open_issues :: "server \<Rightarrow> nat \<Rightarrow> BookIssue list" where
  "open_issues s k = filter (\<lambda>i. references k i \<and> issue_status i = IssueIssued) (bookIssues s)"

text \<open>
  The property of C1: every Book has status \<open>issued\<close> exactly when exactly one issue
  with status \<open>issued\<close> references it.
\<close>

definition status_matches_issues :: "server \<Rightarrow> bool" where
  "status_matches_issues s =
     list_all (\<lambda>b. (status b = Issued) = (length (open_issues s (book_id b)) = 1)) (books s)"

section \<open>Example data\<close>

definition new_years_eve :: jsdate where
  "new_years_eve = \<lparr>getFullYear = 2024, getMonth = 11, getDate = 31\<rparr>"

definition new_years_day :: jsdate where
  "new_years_day = \<lparr>getFullYear = 2025, getMonth = 0, getDate = 1\<rparr>"

definition war_and_peace :: BookInput where
  "war_and_peace =
     \<lparr>in_title = Some ''War and Peace'', in_author = Some ''Tolstoy'',
      in_year = Some 1869, in_status = None\<rparr>"

definition ivanov :: ReaderInput where
  "ivanov =
     \<lparr>in_name = Some ''Ivan Ivanov'', in_email = Some ''ivanov@example.com'',
      in_phone = Some ''+7 (123) 456-78-90''\<rparr>"

definition blank :: string where
  "blank = [CHR '' '', CHR 0x09, CHR '' '']"

text \<open>The examples take for \<^verbatim>\<open>isEmail\<close> the test that the string holds an at sign.\<close>

definition example_isEmail :: "string \<Rightarrow> bool" where
  "example_isEmail e = (CHR ''@'' \<in> set e)"

text \<open>A server started on 31 December 2024 that has added one book.\<close>

definition shelved :: server where
  "shelved =
     exec example_isEmail [(new_years_eve, PostBooks war_and_peace)] (startServer new_years_eve)"

text \<open>A server started on 31 December 2024 that has added one book and issued it.\<close>

definition lent_out :: server where
  "lent_out =
     exec example_isEmail
       [(new_years_eve, PostBooks war_and_peace), (new_years_eve, PostIssue 1 7)]
       (startServer new_years_eve)"

text \<open>The same server after the book has come back on 1 January 2025.\<close>


section \<open>Looking a book up\<close>

lemma findByPk_member:
  "distinct (map book_id rows) \<Longrightarrow> b \<in> set rows \<Longrightarrow> findByPk (book_id b) rows = Some b"
  unfolding findByPk_def
  by (induction rows) auto

lemma findByPk_Some: "findByPk k rows = Some b \<Longrightarrow> b \<in> set rows \<and> book_id b = k"
  unfolding findByPk_def by (auto simp: find_Some_iff)

lemma findByPk_None: "(findByPk k rows = None) = (k \<notin> set (map book_id rows))"
  unfolding findByPk_def by (auto simp: find_None_iff)

section \<open>The writes, table by table\<close>

lemma book_id_setStatusWhere [simp]: "book_id (setStatusWhere k st b) = book_id b"
  by (simp add: setStatusWhere_def)

lemma status_setStatusWhere [simp]:
  "status (setStatusWhere k st b) = (if book_id b = k then st else status b)"
  by (simp add: setStatusWhere_def)

lemma books_updateBookStatus [simp]:
  "books (updateBookStatus k st s) = map (setStatusWhere k st) (books s)"
  by (simp add: updateBookStatus_def)

lemma bookIssues_updateBookStatus [simp]:
  "bookIssues (updateBookStatus k st s) = bookIssues s"
  by (simp add: updateBookStatus_def)

lemma books_updateIssue [simp]: "books (updateIssue k now s) = books s"
  by (simp add: updateIssue_def)

lemma bookIssues_updateIssue [simp]:
  "bookIssues (updateIssue k now s) = map (closeWhere k now) (bookIssues s)"
  by (simp add: updateIssue_def)

lemma books_insertIssue [simp]: "books (insertIssue i s) = books s"
  by (simp add: insertIssue_def)

lemma bookIssues_insertIssue [simp]: "bookIssues (insertIssue i s) = bookIssues s @ [i]"
  by (simp add: insertIssue_def)

lemma status_after_update:
  assumes "b' \<in> set (books (updateBookStatus k st s))" and "book_id b' = k"
  shows "status b' = st"
proof -
  from assms(1) obtain b where b: "b' = setStatusWhere k st b" by auto
  from assms(2) have "book_id b = k" unfolding b by simp
  then show ?thesis unfolding b by simp
qed


section \<open>Creation accepts or rejects\<close>

lemma createBook_rejects:
  assumes "validateBook (yearMax s) body \<noteq> []"
  shows "createBook body s = (Failure 400 (Thrown (ValidationError (validateBook (yearMax s) body))), s)"
  using assms
  by (simp add: createBook_def Let_def split: option.splits list.splits)

lemma createBook_accepts:
  assumes "validateBook (yearMax s) body = []"
  shows "\<exists>book. createBook body s
           = (Success 201 book, s\<lparr>books := books s @ [book], nextBookId := Suc (nextBookId s)\<rparr>)
         \<and> book_id book = nextBookId s
         \<and> status book = (case in_status body of None \<Rightarrow> Available | Some st \<Rightarrow> st)"
proof -
  from assms have "validate_text ''title'' (in_title body) = []"
    and "validate_text ''author'' (in_author body) = []"
    by (simp_all add: validateBook_def)
  then obtain t a where "in_title body = Some t" and "in_author body = Some a"
    by (auto simp: validate_text_def split: option.splits)
  with assms show ?thesis by (simp add: createBook_def Let_def)
qed

lemma createReader_rejects:
  assumes "validateReader isEmail body \<noteq> []"
  shows "createReader isEmail body s
         = (Failure 400 (Thrown (ValidationError (validateReader isEmail body))), s)"
  using assms
  by (simp add: createReader_def Let_def split: option.splits list.splits)

lemma yearMax_createBook: "yearMax (snd (createBook body s)) = yearMax s"
proof (cases "validateBook (yearMax s) body = []")
  case True
  from createBook_accepts [OF True] show ?thesis by auto
next
  case False
  from createBook_rejects [OF False] show ?thesis by simp
qed

lemma yearMax_createReader: "yearMax (snd (createReader isEmail body s)) = yearMax s"
  by (simp add: createReader_def Let_def split: option.splits list.splits)

lemma findOne_BookId:
  "findOne ((''BookId'', v) # cond) rows = Inl (DatabaseError ''BookId'')"
  by (simp add: findOne_def BookIssue_attributes_def)

lemma returnBook_throws:
  "returnBook now k s = (Failure 400 (Thrown (DatabaseError ''BookId'')), s)"
  by (simp add: returnBook_def findOne_BookId)

lemma yearMax_issueBook: "yearMax (snd (issueBook now k r s)) = yearMax s"
  by (simp add: issueBook_def BookIssue_create_def Let_def updateBookStatus_def insertIssue_def
      split: option.splits)

lemma yearMax_returnBook: "yearMax (snd (returnBook now k s)) = yearMax s"
  by (simp add: returnBook_throws)

lemma yearMax_handle: "yearMax (handle isEmail s c) = yearMax s"
proof (cases c)
  case (Pair now op)
  then show ?thesis
    by (cases op)
       (simp_all add: yearMax_createBook yearMax_createReader yearMax_issueBook yearMax_returnBook)
qed

lemma yearMax_exec: "yearMax (exec isEmail calls s) = yearMax s"
  unfolding exec_def
  by (induction calls arbitrary: s) (simp_all add: yearMax_handle)

section \<open>Issuing a book that is missing or not available\<close>

text \<open>
  C3. For a book id that no Book has, POST /issue leaves the store unchanged, and
  answers 400 with the message of a book that is not available: the answer of the
  guard \<^verbatim>\<open>!book || book.status !== 'available'\<close>, not a 404.
\<close>

theorem issueBook_missing_book:
  assumes "findByPk bookId (books s) = None"
  shows "issueBook now bookId readerId s = (Failure 400 BookUnavailable, s)"
  using assms by (simp add: issueBook_def)

theorem issueBook_missing_book_witness:
  "findByPk 1 (books (startServer new_years_eve)) = None
   \<and> issueBook new_years_eve 1 1 (startServer new_years_eve)
       = (Failure 400 BookUnavailable, startServer new_years_eve)"
proof -
  have h: "findByPk 1 (books (startServer new_years_eve)) = None" by code_simp
  from h issueBook_missing_book [OF h] show ?thesis by blast
qed

text \<open>
  C4. For every Book of the store whose status is not \<open>available\<close>, POST /issue on
  that book answers 400 "the book is not available for issue" and leaves the store
  unchanged, so no issue is created.
\<close>

theorem issueBook_not_available:
  assumes "distinct (map book_id (books s))" and "b \<in> set (books s)"
    and "status b \<noteq> Available"
  shows "issueBook now (book_id b) readerId s = (Failure 400 BookUnavailable, s)"
proof -
  from assms(1,2) have "findByPk (book_id b) (books s) = Some b"
    by (rule findByPk_member)
  with assms(3) show ?thesis by (simp add: issueBook_def)
qed

theorem issueBook_not_available_witness:
  "distinct (map book_id (books lent_out))
   \<and> hd (books lent_out) \<in> set (books lent_out)
   \<and> status (hd (books lent_out)) = Issued
   \<and> book_id (hd (books lent_out)) = 1
   \<and> issueBook new_years_day 1 8 lent_out = (Failure 400 BookUnavailable, lent_out)"
proof -
  have a: "distinct (map book_id (books lent_out))" by code_simp
  have b: "hd (books lent_out) \<in> set (books lent_out)" by code_simp
  have c: "status (hd (books lent_out)) = Issued" by code_simp
  have d: "book_id (hd (books lent_out)) = 1" by code_simp
  from c have c': "status (hd (books lent_out)) \<noteq> Available" by simp
  from issueBook_not_available [OF a b c', of new_years_day 8] a b c d
  show ?thesis by simp
qed

section \<open>The bound of the year\<close>

text \<open>
  C7. The claim asks for the calendar year of each call. The handler has no such
  input: whatever requests the server has handled since it was loaded, and whenever,
  a year submitted with a valid title and author is rejected exactly when it is not
  between 0 and the year read when the module was loaded.
\<close>

theorem createBook_year_bound_fixed_at_load:
  assumes "notEmpty t" and "notEmpty a"
  shows "is_failure (fst (createBook \<lparr>in_title = Some t, in_author = Some a, in_year = Some y,
                                     in_status = st\<rparr>
                            (exec isEmail calls (startServer loaded))))
         = (\<not> (0 \<le> y \<and> y \<le> getFullYear loaded))"
proof -
  let ?s = "exec isEmail calls (startServer loaded)"
  let ?body = "\<lparr>in_title = Some t, in_author = Some a, in_year = Some y, in_status = st\<rparr>"
  have bound: "yearMax ?s = getFullYear loaded"
    by (simp add: yearMax_exec startServer_def)
  have v: "(validateBook (yearMax ?s) ?body = []) = (0 \<le> y \<and> y \<le> getFullYear loaded)"
    using assms by (simp add: validateBook_def validate_text_def validate_year_def bound)
  show ?thesis
  proof (cases "validateBook (yearMax ?s) ?body = []")
    case True
    from createBook_accepts [OF True] obtain book s' where
      "createBook ?body ?s = (Success 201 book, s')" by blast
    with True v show ?thesis by simp
  next
    case False
    from createBook_rejects [OF False] False v show ?thesis by simp
  qed
qed

theorem createBook_year_bound_fixed_at_load_witness:
  "notEmpty ''War and Peace'' \<and> notEmpty ''Tolstoy''
   \<and> is_failure (fst (createBook \<lparr>in_title = Some ''War and Peace'', in_author = Some ''Tolstoy'',
                                  in_year = Some 2025, in_status = None\<rparr>
                        (exec example_isEmail [(new_years_day, PostBooks war_and_peace)]
                           (startServer new_years_eve))))
   \<and> getFullYear new_years_eve = 2024 \<and> getFullYear new_years_day = 2025
   \<and> exec example_isEmail [(new_years_day, PostBooks (war_and_peace\<lparr>in_year := Some 2025\<rparr>))]
        (startServer new_years_eve) = startServer new_years_eve"
proof -
  have t: "notEmpty ''War and Peace''" by code_simp
  have a: "notEmpty ''Tolstoy''" by code_simp
  have y: "getFullYear new_years_eve = 2024" by (simp add: new_years_eve_def)
  have y': "getFullYear new_years_day = 2025" by (simp add: new_years_day_def)
  have e: "exec example_isEmail [(new_years_day, PostBooks (war_and_peace\<lparr>in_year := Some 2025\<rparr>))]
        (startServer new_years_eve) = startServer new_years_eve" by code_simp
  from createBook_year_bound_fixed_at_load [OF t a, of 2025 None example_isEmail
      "[(new_years_day, PostBooks war_and_peace)]" new_years_eve]
  have "is_failure (fst (createBook \<lparr>in_title = Some ''War and Peace'', in_author = Some ''Tolstoy'',
                                  in_year = Some 2025, in_status = None\<rparr>
                        (exec example_isEmail [(new_years_day, PostBooks war_and_peace)]
                           (startServer new_years_eve))))"
    unfolding y by simp
  with t a y y' e show ?thesis by blast
qed

section \<open>Text that must not be empty\<close>

lemma trim_Nil_iff: "(trim str = []) = list_all is_space str"
proof
  assume "trim str = []"
  then have e: "dropWhile is_space (rev (dropWhile is_space str)) = []"
    by (simp add: trim_def)
  have "dropWhile is_space str = []"
  proof (rule ccontr)
    assume ne: "dropWhile is_space str \<noteq> []"
    then have "\<not> is_space (hd (dropWhile is_space str))" by (rule hd_dropWhile)
    moreover from ne have "hd (dropWhile is_space str) \<in> set (rev (dropWhile is_space str))"
      by simp
    moreover from e have "\<forall>c \<in> set (rev (dropWhile is_space str)). is_space c"
      by (simp only: dropWhile_eq_Nil_conv)
    ultimately show False by blast
  qed
  then show "list_all is_space str"
    by (simp add: dropWhile_eq_Nil_conv list_all_iff)
next
  assume "list_all is_space str"
  then have "dropWhile is_space str = []"
    by (simp add: dropWhile_eq_Nil_conv list_all_iff)
  then have "trim str = rev (dropWhile is_space (rev []))" by (simp only: trim_def)
  then show "trim str = []" by simp
qed

lemma notEmpty_spec: "notEmpty str = spec_nonempty_text str"
proof -
  have "spec_nonempty_text str = (trim str \<noteq> [])"
    by (cases "trim str") (simp_all add: spec_nonempty_text_def)
  then show ?thesis by (simp add: notEmpty_def trim_Nil_iff)
qed

lemma validate_text_Some: "(validate_text attr (Some str) = []) = notEmpty str"
  by (simp add: validate_text_def)

text \<open>
  C8. The validator of a text attribute accepts a string exactly when its trimmed
  length is at least 1; a title, an author or a name of white space only makes POST
  /books or POST /readers answer 400 with a validation error that names the attribute,
  and nothing is stored.
\<close>

theorem blank_text_rejected:
  "((validate_text attr (Some str) = []) = spec_nonempty_text str)
   \<and> (\<not> spec_nonempty_text str \<longrightarrow>
        (\<exists>errors. createBook (body\<lparr>in_title := Some str\<rparr>) s
                    = (Failure 400 (Thrown (ValidationError errors)), s)
                 \<and> (''title'', ''notEmpty'') \<in> set errors)
      \<and> (\<exists>errors. createBook (body\<lparr>in_author := Some str\<rparr>) s
                    = (Failure 400 (Thrown (ValidationError errors)), s)
                 \<and> (''author'', ''notEmpty'') \<in> set errors)
      \<and> (\<exists>errors. createReader isEmail (reader\<lparr>in_name := Some str\<rparr>) s
                    = (Failure 400 (Thrown (ValidationError errors)), s)
                 \<and> (''name'', ''notEmpty'') \<in> set errors))"
proof (intro conjI impI)
  show "(validate_text attr (Some str) = []) = spec_nonempty_text str"
    by (simp add: validate_text_Some notEmpty_spec)
next
  assume "\<not> spec_nonempty_text str"
  then have blank: "\<not> notEmpty str" by (simp add: notEmpty_spec)
  have t: "(''title'', ''notEmpty'')
             \<in> set (validateBook (yearMax s) (body\<lparr>in_title := Some str\<rparr>))"
    using blank by (simp add: validateBook_def validate_text_def)
  then have "validateBook (yearMax s) (body\<lparr>in_title := Some str\<rparr>) \<noteq> []" by auto
  from createBook_rejects [OF this] t
  show "\<exists>errors. createBook (body\<lparr>in_title := Some str\<rparr>) s
                   = (Failure 400 (Thrown (ValidationError errors)), s)
                \<and> (''title'', ''notEmpty'') \<in> set errors"
    by blast
next
  assume "\<not> spec_nonempty_text str"
  then have blank: "\<not> notEmpty str" by (simp add: notEmpty_spec)
  have a: "(''author'', ''notEmpty'')
             \<in> set (validateBook (yearMax s) (body\<lparr>in_author := Some str\<rparr>))"
    using blank by (simp add: validateBook_def validate_text_def)
  then have "validateBook (yearMax s) (body\<lparr>in_author := Some str\<rparr>) \<noteq> []" by auto
  from createBook_rejects [OF this] a
  show "\<exists>errors. createBook (body\<lparr>in_author := Some str\<rparr>) s
                   = (Failure 400 (Thrown (ValidationError errors)), s)
                \<and> (''author'', ''notEmpty'') \<in> set errors"
    by blast
next
  assume "\<not> spec_nonempty_text str"
  then have blank: "\<not> notEmpty str" by (simp add: notEmpty_spec)
  have n: "(''name'', ''notEmpty'')
             \<in> set (validateReader isEmail (reader\<lparr>in_name := Some str\<rparr>))"
    using blank by (simp add: validateReader_def validate_text_def)
  then have "validateReader isEmail (reader\<lparr>in_name := Some str\<rparr>) \<noteq> []" by auto
  from createReader_rejects [OF this] n
  show "\<exists>errors. createReader isEmail (reader\<lparr>in_name := Some str\<rparr>) s
                   = (Failure 400 (Thrown (ValidationError errors)), s)
                \<and> (''name'', ''notEmpty'') \<in> set errors"
    by blast
qed

theorem blank_text_rejected_witness:
  "\<not> spec_nonempty_text blank
   \<and> validate_text ''title'' (Some blank) \<noteq> []
   \<and> (\<exists>errors. createBook (war_and_peace\<lparr>in_title := Some blank\<rparr>) lent_out
                 = (Failure 400 (Thrown (ValidationError errors)), lent_out)
              \<and> (''title'', ''notEmpty'') \<in> set errors)
   \<and> (\<exists>errors. createBook (war_and_peace\<lparr>in_author := Some blank\<rparr>) lent_out
                 = (Failure 400 (Thrown (ValidationError errors)), lent_out)
              \<and> (''author'', ''notEmpty'') \<in> set errors)
   \<and> (\<exists>errors. createReader example_isEmail (ivanov\<lparr>in_name := Some blank\<rparr>) lent_out
                 = (Failure 400 (Thrown (ValidationError errors)), lent_out)
              \<and> (''name'', ''notEmpty'') \<in> set errors)"
proof -
  have h: "\<not> spec_nonempty_text blank" by code_simp
  from blank_text_rejected [of "''title''" blank war_and_peace lent_out example_isEmail ivanov] h
  show ?thesis by blast
qed

section \<open>Outcomes of POST /issue\<close>

lemma build_issueValues:
  "build key now (issueValues k r)
   = \<lparr>issue_id = key, issueDate = now, returnDate = None, issue_status = IssueIssued\<rparr>"
  by (simp add: build_def issueValues_def)

lemma references_never [simp]: "\<not> references k i"
  by (simp add: references_def getDataValue_def)

lemma open_issues_Nil [simp]: "open_issues s k = []"
  by (simp add: open_issues_def)

lemma issueBook_cases:
  obtains (refused) "issueBook now k r s = (Failure 400 BookUnavailable, s)"
  | (issued) b where "findByPk k (books s) = Some b" and "status b = Available"
      and "issueBook now k r s
           = (Success 201 (build (nextIssueId s) now (issueValues k r)),
              updateBookStatus k Issued
                (insertIssue (build (nextIssueId s) now (issueValues k r)) s))"
proof (cases "findByPk k (books s)")
  case None
  then have "issueBook now k r s = (Failure 400 BookUnavailable, s)"
    by (simp add: issueBook_def)
  then show ?thesis by (rule refused)
next
  case (Some b)
  then have k: "book_id b = k" by (simp add: findByPk_Some)
  show ?thesis
  proof (cases "status b = Available")
    case True
    with Some k have "issueBook now k r s
           = (Success 201 (build (nextIssueId s) now (issueValues k r)),
              updateBookStatus k Issued
                (insertIssue (build (nextIssueId s) now (issueValues k r)) s))"
      by (simp add: issueBook_def BookIssue_create_def Let_def)
    with Some True show ?thesis by (rule issued)
  next
    case False
    with Some have "issueBook now k r s = (Failure 400 BookUnavailable, s)"
      by (simp add: issueBook_def)
    then show ?thesis by (rule refused)
  qed
qed

lemma issueBook_success:
  assumes "fst (issueBook now k r s) = Success c issue"
  obtains b where "findByPk k (books s) = Some b" and "status b = Available"
    and "c = 201" and "issue = build (nextIssueId s) now (issueValues k r)"
    and "snd (issueBook now k r s) = updateBookStatus k Issued (insertIssue issue s)"
proof (cases rule: issueBook_cases [of now k r s])
  case refused
  with assms show ?thesis by simp
next
  case (issued b)
  with assms that show ?thesis by simp
qed

section \<open>Issuing to a reader that does not exist\<close>

text \<open>
  C9. POST /issue does not look the reader up: for every Book of the store with status
  \<open>available\<close> and every reader id that no Reader has, the handler answers 201 with a
  new issue of status \<open>issued\<close>, and the issue is in the store.
\<close>

theorem issueBook_unknown_reader:
  assumes "distinct (map book_id (books s))" and "b \<in> set (books s)"
    and "status b = Available"
    and "readerId \<notin> set (map reader_id (readers s))"
  shows "\<exists>issue. fst (issueBook now (book_id b) readerId s) = Success 201 issue
           \<and> issue_status issue = IssueIssued
           \<and> issue \<in> set (bookIssues (snd (issueBook now (book_id b) readerId s)))"
proof -
  from assms(1,2) have "findByPk (book_id b) (books s) = Some b"
    by (rule findByPk_member)
  with assms(3) show ?thesis
    by (simp add: issueBook_def BookIssue_create_def Let_def build_issueValues)
qed

theorem issueBook_unknown_reader_witness:
  "readers shelved = []
   \<and> map status (books shelved) = [Available]
   \<and> (\<exists>issue. fst (issueBook new_years_eve 1 42 shelved) = Success 201 issue
         \<and> issue_status issue = IssueIssued
         \<and> issue \<in> set (bookIssues (snd (issueBook new_years_eve 1 42 shelved))))"
proof -
  have a: "distinct (map book_id (books shelved))" by code_simp
  have b: "hd (books shelved) \<in> set (books shelved)" by code_simp
  have c: "status (hd (books shelved)) = Available" by code_simp
  have d: "42 \<notin> set (map reader_id (readers shelved))" by code_simp
  have e: "book_id (hd (books shelved)) = 1" by code_simp
  have r: "readers shelved = []" by code_simp
  have st: "map status (books shelved) = [Available]" by code_simp
  from issueBook_unknown_reader [OF a b c d, of new_years_eve] r st
  show ?thesis unfolding e by blast
qed

section \<open>Returning a book\<close>

text \<open>
  C5, as the code has it. POST /return leaves the store as it was, but it never answers
  404: for every store and every book id, with or without issues, the query names the
  column \<^verbatim>\<open>BookId\<close>, which the table of issues does not have, and the handler answers
  400 with the database error.
\<close>

theorem returnBook_database_error:
  "returnBook now bookId s = (Failure 400 (Thrown (DatabaseError ''BookId'')), s)"
  by (simp add: returnBook_def findOne_BookId)

theorem returnBook_database_error_witness:
  "bookIssues (startServer new_years_eve) = []
   \<and> returnBook new_years_eve 1 (startServer new_years_eve)
       = (Failure 400 (Thrown (DatabaseError ''BookId'')), startServer new_years_eve)"
proof -
  have "bookIssues (startServer new_years_eve) = []" by code_simp
  with returnBook_database_error [of new_years_eve 1 "startServer new_years_eve"]
  show ?thesis by blast
qed

text \<open>
  The handler after its guard does set the status of the book to \<open>available\<close>,
  whatever it was.
\<close>

lemma returnFound_overwrites_status:
  assumes "findByPk k (books s) = Some b"
  shows "fst (returnFound now k issue s) = Success 200 (closeIssue now issue)"
    and "b' \<in> set (books (snd (returnFound now k issue s))) \<Longrightarrow> book_id b' = k
         \<Longrightarrow> status b' = Available"
proof -
  from assms have k: "book_id b = k" by (simp add: findByPk_Some)
  with assms have r: "returnFound now k issue s
      = (Success 200 (closeIssue now issue),
         updateBookStatus k Available (updateIssue (issue_id issue) now s))"
    by (simp add: returnFound_def Let_def)
  then show "fst (returnFound now k issue s) = Success 200 (closeIssue now issue)" by simp
  assume "b' \<in> set (books (snd (returnFound now k issue s)))" and "book_id b' = k"
  then show "status b' = Available" unfolding r snd_conv by (rule status_after_update)
qed



section \<open>Issue, then return\<close>

text \<open>
  C6, as the code has it. After any successful POST /issue, POST /return of the same
  book, at any date, answers 400 with the database error and changes nothing: the book
  stays \<open>issued\<close>, and the issue created stays \<open>issued\<close> with no return date.
\<close>

theorem return_after_issue_fails:
  assumes "fst (issueBook t1 bookId readerId s) = Success c issue"
  shows "returnBook t2 bookId (snd (issueBook t1 bookId readerId s))
           = (Failure 400 (Thrown (DatabaseError ''BookId'')),
              snd (issueBook t1 bookId readerId s))
         \<and> (\<exists>b. b \<in> set (books (snd (issueBook t1 bookId readerId s)))
                \<and> book_id b = bookId \<and> status b = Issued)
         \<and> issue \<in> set (bookIssues (snd (issueBook t1 bookId readerId s)))
         \<and> issue_status issue = IssueIssued
         \<and> returnDate issue = None"
proof -
  from assms obtain b where f: "findByPk bookId (books s) = Some b"
    and i: "issue = build (nextIssueId s) t1 (issueValues bookId readerId)"
    and s': "snd (issueBook t1 bookId readerId s)
             = updateBookStatus bookId Issued (insertIssue issue s)"
    by (rule issueBook_success)
  from f have b: "b \<in> set (books s)" and k: "book_id b = bookId"
    by (simp_all add: findByPk_Some)
  let ?b' = "setStatusWhere bookId Issued b"
  from b have "?b' \<in> set (books (updateBookStatus bookId Issued (insertIssue issue s)))"
    by simp
  moreover from k have "book_id ?b' = bookId" and "status ?b' = Issued" by simp_all
  ultimately have 1: "\<exists>b. b \<in> set (books (snd (issueBook t1 bookId readerId s)))
                \<and> book_id b = bookId \<and> status b = Issued"
    unfolding s' by blast
  have 2: "issue \<in> set (bookIssues (snd (issueBook t1 bookId readerId s)))"
    unfolding s' by simp
  have 3: "issue_status issue = IssueIssued" and 4: "returnDate issue = None"
    unfolding i by (simp_all add: build_issueValues)
  from returnBook_throws 1 2 3 4 show ?thesis by blast
qed

theorem return_after_issue_fails_witness:
  "fst (issueBook new_years_eve 1 7 shelved)
     = Success 201 \<lparr>issue_id = 1, issueDate = new_years_eve, returnDate = None,
                     issue_status = IssueIssued\<rparr>
   \<and> snd (issueBook new_years_eve 1 7 shelved) = lent_out
   \<and> returnBook new_years_day 1 lent_out
       = (Failure 400 (Thrown (DatabaseError ''BookId'')), lent_out)
   \<and> map status (books lent_out) = [Issued]
   \<and> map issue_status (bookIssues lent_out) = [IssueIssued]
   \<and> map returnDate (bookIssues lent_out) = [None]"
proof -
  have a: "fst (issueBook new_years_eve 1 7 shelved)
     = Success 201 \<lparr>issue_id = 1, issueDate = new_years_eve, returnDate = None,
                     issue_status = IssueIssued\<rparr>" by code_simp
  have b: "snd (issueBook new_years_eve 1 7 shelved) = lent_out" by code_simp
  have c: "map status (books lent_out) = [Issued]" by code_simp
  have d: "map issue_status (bookIssues lent_out) = [IssueIssued]" by code_simp
  have e: "map returnDate (bookIssues lent_out) = [None]" by code_simp
  from return_after_issue_fails [OF a, of new_years_day]
  have "returnBook new_years_day 1 lent_out
       = (Failure 400 (Thrown (DatabaseError ''BookId'')), lent_out)"
    unfolding b by blast
  with a b c d e show ?thesis by blast
qed

section \<open>Book status and open issues\<close>

text \<open>
  C1, as the code has it. After any successful POST /issue the book has status
  \<open>issued\<close> and no issue references it, since the row created holds no \<^verbatim>\<open>BookId\<close>:
  the property of C1 fails in the state reached.
\<close>

theorem issued_book_has_no_issue:
  assumes "fst (issueBook now bookId readerId s) = Success c issue"
  shows "(\<exists>b. b \<in> set (books (snd (issueBook now bookId readerId s)))
              \<and> book_id b = bookId \<and> status b = Issued)
         \<and> open_issues (snd (issueBook now bookId readerId s)) bookId = []
         \<and> \<not> status_matches_issues (snd (issueBook now bookId readerId s))"
proof -
  from assms obtain b where f: "findByPk bookId (books s) = Some b"
    and s': "snd (issueBook now bookId readerId s)
             = updateBookStatus bookId Issued (insertIssue issue s)"
    by (rule issueBook_success)
  from f have b: "b \<in> set (books s)" and k: "book_id b = bookId"
    by (simp_all add: findByPk_Some)
  let ?b' = "setStatusWhere bookId Issued b"
  from b have in': "?b' \<in> set (books (snd (issueBook now bookId readerId s)))"
    unfolding s' by simp
  from k have st: "book_id ?b' = bookId" "status ?b' = Issued" by simp_all
  have "\<not> ((status ?b' = Issued)
            = (length (open_issues (snd (issueBook now bookId readerId s)) (book_id ?b')) = 1))"
    using st by simp
  with in' have "\<not> status_matches_issues (snd (issueBook now bookId readerId s))"
    unfolding status_matches_issues_def list_all_iff by blast
  with in' st show ?thesis by (simp only: open_issues_Nil) blast
qed

theorem issued_book_has_no_issue_witness:
  "fst (issueBook new_years_eve 1 7 shelved)
     = Success 201 \<lparr>issue_id = 1, issueDate = new_years_eve, returnDate = None,
                     issue_status = IssueIssued\<rparr>
   \<and> map status (books (snd (issueBook new_years_eve 1 7 shelved))) = [Issued]
   \<and> length (bookIssues (snd (issueBook new_years_eve 1 7 shelved))) = 1
   \<and> open_issues (snd (issueBook new_years_eve 1 7 shelved)) 1 = []
   \<and> \<not> status_matches_issues (snd (issueBook new_years_eve 1 7 shelved))"
proof -
  have a: "fst (issueBook new_years_eve 1 7 shelved)
     = Success 201 \<lparr>issue_id = 1, issueDate = new_years_eve, returnDate = None,
                     issue_status = IssueIssued\<rparr>" by code_simp
  have b: "map status (books (snd (issueBook new_years_eve 1 7 shelved))) = [Issued]"
    by code_simp
  have c: "length (bookIssues (snd (issueBook new_years_eve 1 7 shelved))) = 1"
    by code_simp
  from issued_book_has_no_issue [OF a] a b c show ?thesis by blast
qed

section \<open>All or nothing\<close>



end
